theory Spec2Isabelle
  imports Complex_Main "HOL-Library.Multiset" "HOL-Library.List_Lexorder"
begin

section \<open>Data model of \<open>recommendation_service.py\<close>\<close>

text \<open>
  A pandas \<open>DataFrame\<close> is a list of rows together with the names of the columns it
  carries. Every row has its index label (\<open>label\<close>) and one field per column the three
  tables may have; a field whose column is not in \<open>columns\<close> is never read.
  Python integers are \<open>int\<close>. The float columns (\<open>score\<close> and the blend scores) are
  exact rationals: rounding, NaN and infinities of IEEE doubles are not modelled.
\<close>

record row =
  label :: int
  user_id :: int
  track_id :: int
  score :: rat
  rank :: int
  listen_count :: int

record dataframe =
  columns :: "string list"
  rows :: "row list"

datatype error = KeyError | ValueError | ClientError

record stats =
  request_personal_count :: int
  request_default_count :: int
  request_with_online_count :: int

text \<open>
  The object \<open>Recommendations\<close>: the dictionary \<open>_recs\<close> (a Python \<open>None\<close> entry is
  \<open>None\<close>), the dictionary \<open>_stats\<close>, and what the S3 client \<open>_s3\<close> reaches in the bucket
  \<open>_bucket\<close>: the parquet object stored under each key, and the keys requested so far.
\<close>

record recommendations =
  recs :: "string \<Rightarrow> dataframe option"
  stats :: stats
  bucket :: "string \<Rightarrow> dataframe option"
  requested :: "string list"

definition S3_KEYS :: "(string \<times> string) list" where
  "S3_KEYS =
     [(''top_popular'', ''recsys/recommendations/top_popular.parquet''),
      (''personal_als'', ''recsys/recommendations/personal_als.parquet''),
      (''final_ranked'', ''recsys/recommendations/recommendations.parquet'')]"

section \<open>Loading\<close>

text \<open>
  \<open>read_parquet_s3\<close>: \<open>get_object\<close> is one request to the bucket; a missing object
  raises. \<open>pd.read_parquet\<close> gives the frame a fresh \<open>RangeIndex\<close>.
\<close>

definition read_parquet_s3 ::
  "recommendations \<Rightarrow> string \<Rightarrow> (error + dataframe) \<times> recommendations" where
  "read_parquet_s3 self key =
     (let self1 = self\<lparr>requested := requested self @ [key]\<rparr> in
      case bucket self key of
        None \<Rightarrow> (Inl ClientError, self1)
      | Some df \<Rightarrow>
          (Inr (df\<lparr>rows := map (\<lambda>(i, r). r\<lparr>label := int i\<rparr>) (enumerate 0 (rows df))\<rparr>),
           self1))"

definition set_index :: "dataframe \<Rightarrow> dataframe" where
  "set_index df =
     \<lparr>columns = removeAll ''user_id'' (columns df),
      rows = map (\<lambda>r. r\<lparr>label := user_id r\<rparr>) (rows df)\<rparr>"

definition load :: "recommendations \<Rightarrow> string \<Rightarrow> (error + unit) \<times> recommendations" where
  "load self rtype =
     (case map_of S3_KEYS rtype of
        None \<Rightarrow> (Inl ValueError, self)
      | Some key \<Rightarrow>
          (case read_parquet_s3 self key of
             (Inl e, self1) \<Rightarrow> (Inl e, self1)
           | (Inr df, self1) \<Rightarrow>
               (let df1 = (if rtype \<in> {''final_ranked'', ''personal_als''}
                              \<and> ''user_id'' \<in> set (columns df)
                           then set_index df else df)
                in (Inr (), self1\<lparr>recs := (recs self1)(rtype := Some df1)\<rparr>))))"

section \<open>Ordering\<close>

text \<open>
  \<open>DataFrame.sort_values\<close> computes an indexer from the key columns and takes the rows
  in that order. The indexer comes from the sort routine of pandas and numpy, which is
  not part of the repository: it is the parameter \<open>argsort\<close>, from the key vectors of
  the rows (a descending column negated) to the positions in sorted order.
  \<open>is_argsort\<close> is what every sort kind of the library provides: the positions are a
  permutation and the keys taken in that order ascend. No call in the source asks for
  \<open>kind='stable'\<close>, so nothing is assumed on the order of rows with equal keys.
\<close>

type_synonym argsort = "rat list list \<Rightarrow> nat list"

definition is_argsort :: "argsort \<Rightarrow> bool" where
  "is_argsort argsort \<longleftrightarrow>
     (\<forall>keys. mset (argsort keys) = mset [0..<length keys]
           \<and> sorted (map (\<lambda>i. keys ! i) (argsort keys)))"

definition sort_keys :: "('r \<Rightarrow> rat) list \<Rightarrow> bool list \<Rightarrow> 'r \<Rightarrow> rat list" where
  "sort_keys cols ascending r = map (\<lambda>(f, a). if a then f r else - f r) (zip cols ascending)"

definition sort_values ::
  "argsort \<Rightarrow> ('r \<Rightarrow> rat) list \<Rightarrow> bool list \<Rightarrow> 'r list \<Rightarrow> 'r list" where
  "sort_values argsort cols ascending rs =
     map (\<lambda>i. rs ! i) (argsort (map (sort_keys cols ascending) rs))"

definition order_personal :: "argsort \<Rightarrow> dataframe \<Rightarrow> dataframe" where
  "order_personal argsort df =
     (if ''score'' \<in> set (columns df) \<and> ''rank'' \<in> set (columns df) then
        df\<lparr>rows := sort_values argsort [score, \<lambda>r. of_int (rank r)] [False, True] (rows df)\<rparr>
      else if ''score'' \<in> set (columns df) then
        df\<lparr>rows := sort_values argsort [score] [False] (rows df)\<rparr>
      else if ''rank'' \<in> set (columns df) then
        df\<lparr>rows := sort_values argsort [\<lambda>r. of_int (rank r)] [True] (rows df)\<rparr>
      else df)"

definition order_top :: "argsort \<Rightarrow> dataframe \<Rightarrow> dataframe" where
  "order_top argsort df =
     (if ''listen_count'' \<in> set (columns df) \<and> ''rank'' \<in> set (columns df) then
        df\<lparr>rows := sort_values argsort
                      [\<lambda>r. of_int (listen_count r), \<lambda>r. of_int (rank r)] [False, True] (rows df)\<rparr>
      else if ''listen_count'' \<in> set (columns df) then
        df\<lparr>rows := sort_values argsort [\<lambda>r. of_int (listen_count r)] [False] (rows df)\<rparr>
      else if ''rank'' \<in> set (columns df) then
        df\<lparr>rows := sort_values argsort [\<lambda>r. of_int (rank r)] [True] (rows df)\<rparr>
      else df)"

section \<open>Offline resolution\<close>

text \<open>
  \<open>df.loc[user_id]\<close>: the rows whose index label is \<open>user_id\<close>, in table order;
  \<open>KeyError\<close> when there is none. A single match comes back as a \<open>Series\<close> and
  \<open>to_frame().T\<close> turns it into the one-row frame again.
\<close>

definition loc :: "dataframe \<Rightarrow> int \<Rightarrow> error + dataframe" where
  "loc df u =
     (let m = filter (\<lambda>r. label r = u) (rows df)
      in if m = [] then Inl KeyError else Inr (df\<lparr>rows := m\<rparr>))"

text \<open>\<open>recs["track_id"]\<close>: \<open>KeyError\<close> when the frame has no such column.\<close>

definition track_id_column :: "dataframe \<Rightarrow> error + int list" where
  "track_id_column df =
     (if ''track_id'' \<in> set (columns df) then Inr (map track_id (rows df)) else Inl KeyError)"

text \<open>
  \<open>head(n)\<close> and the slice \<open>[:n]\<close>: the first \<open>n\<close> entries, and for a negative \<open>n\<close>
  all entries but the last \<open>-n\<close>.
\<close>

definition head :: "int \<Rightarrow> 'a list \<Rightarrow> 'a list" where
  "head n xs = (if 0 \<le> n then take (nat n) xs else take (length xs - nat (- n)) xs)"

text \<open>The body of the \<open>try\<close> blocks of tiers 1 and 2, up to \<open>tolist()\<close>.\<close>

definition personal_tracks :: "argsort \<Rightarrow> dataframe \<Rightarrow> int \<Rightarrow> int \<Rightarrow> error + int list" where
  "personal_tracks argsort df u k =
     (case loc df u of
        Inl e \<Rightarrow> Inl e
      | Inr m \<Rightarrow>
          (case track_id_column (order_personal argsort m) of
             Inl e \<Rightarrow> Inl e
           | Inr ts \<Rightarrow> Inr (head k ts)))"

definition bump_personal :: "recommendations \<Rightarrow> recommendations" where
  "bump_personal self =
     self\<lparr>stats := (stats self)\<lparr>request_personal_count := request_personal_count (stats self) + 1\<rparr>\<rparr>"

definition bump_default :: "recommendations \<Rightarrow> recommendations" where
  "bump_default self =
     self\<lparr>stats := (stats self)\<lparr>request_default_count := request_default_count (stats self) + 1\<rparr>\<rparr>"

definition bump_with_online :: "recommendations \<Rightarrow> recommendations" where
  "bump_with_online self =
     self\<lparr>stats := (stats self)\<lparr>request_with_online_count :=
                                  request_with_online_count (stats self) + 1\<rparr>\<rparr>"

text \<open>Tier 3 and the final \<open>return []\<close>; a \<open>KeyError\<close> is not caught here.\<close>

definition tier_top ::
  "argsort \<Rightarrow> recommendations \<Rightarrow> int \<Rightarrow> (error + int list) \<times> recommendations" where
  "tier_top argsort self k =
     (case recs self ''top_popular'' of
        Some tp \<Rightarrow>
          (case track_id_column (order_top argsort tp) of
             Inl e \<Rightarrow> (Inl e, self)
           | Inr ts \<Rightarrow> (Inr (head k ts), bump_default self))
      | None \<Rightarrow> (Inr [], self))"

text \<open>Tier 2, falling through to tier 3 on \<open>None\<close> and on a caught \<open>KeyError\<close>.\<close>

definition tier_als ::
  "argsort \<Rightarrow> recommendations \<Rightarrow> int \<Rightarrow> int \<Rightarrow> (error + int list) \<times> recommendations" where
  "tier_als argsort self u k =
     (case recs self ''personal_als'' of
        Some pa \<Rightarrow>
          (case personal_tracks argsort pa u k of
             Inr tracks \<Rightarrow> (Inr tracks, bump_personal self)
           | Inl KeyError \<Rightarrow> tier_top argsort self k
           | Inl e \<Rightarrow> (Inl e, self))
      | None \<Rightarrow> tier_top argsort self k)"

definition get_offline ::
  "argsort \<Rightarrow> recommendations \<Rightarrow> int \<Rightarrow> int \<Rightarrow> (error + int list) \<times> recommendations" where
  "get_offline argsort self u k =
     (case recs self ''final_ranked'' of
        Some fr \<Rightarrow>
          (case personal_tracks argsort fr u k of
             Inr tracks \<Rightarrow> (Inr tracks, bump_personal self)
           | Inl KeyError \<Rightarrow> tier_als argsort self u k
           | Inl e \<Rightarrow> (Inl e, self))
      | None \<Rightarrow> tier_als argsort self u k)"

section \<open>Blending\<close>

record cand =
  cand_track_id :: int
  online_boost :: rat
  offline_score :: rat
  final_score :: rat

text \<open>The frame \<open>cands_df\<close> with its three computed columns; its index is the position.\<close>

definition candidates :: "int list \<Rightarrow> int list \<Rightarrow> rat \<Rightarrow> cand list" where
  "candidates offline recent_tracks alpha =
     map (\<lambda>(i, tid).
            let boost = (if tid \<in> set recent_tracks then 1 else 0);
                off = 1 / (of_nat i + 1)
            in \<lparr>cand_track_id = tid, online_boost = boost, offline_score = off,
                final_score = (1 - alpha) * off + alpha * boost\<rparr>)
         (enumerate 0 offline)"

definition get_with_online ::
  "argsort \<Rightarrow> recommendations \<Rightarrow> int \<Rightarrow> int \<Rightarrow> int list option \<Rightarrow> rat
     \<Rightarrow> (error + int list) \<times> recommendations" where
  "get_with_online argsort self u k recent_tracks alpha =
     (case get_offline argsort self u (k * 5) of
        (Inl e, self1) \<Rightarrow> (Inl e, self1)
      | (Inr offline, self1) \<Rightarrow>
          if offline = [] then (Inr [], self1)
          else
            (case recent_tracks of
               None \<Rightarrow> (Inr (head k offline), self1)
             | Some recent \<Rightarrow>
                 if recent = [] then (Inr (head k offline), self1)
                 else
                   (let self2 = bump_with_online self1;
                        cands_df = sort_values argsort [final_score] [False]
                                     (candidates offline recent alpha)
                    in (Inr (head k (map cand_track_id cands_df)), self2))))"

text \<open>
  The sort kind that keeps rows with equal keys in their order (an insertion sort of the
  positions), used to run the model on concrete inputs.
\<close>

definition stable_argsort :: argsort where
  "stable_argsort keys = sort_key (\<lambda>i. keys ! i) [0..<length keys]"

section \<open>A concrete engine state\<close>

text \<open>
  User 42 has seven rows in \<open>final_ranked\<close> and one in \<open>personal_als\<close>; user 7 has one
  row in \<open>final_ranked\<close>; \<open>top_popular\<close> has two rows. No counter has been incremented.
\<close>

definition mk_row :: "int \<Rightarrow> int \<Rightarrow> rat \<Rightarrow> int \<Rightarrow> int \<Rightarrow> row" where
  "mk_row u t s r c =
     \<lparr>label = u, user_id = u, track_id = t, score = s, rank = r, listen_count = c\<rparr>"

definition demo_final_ranked :: dataframe where
  "demo_final_ranked =
     \<lparr>columns = [''track_id'', ''score'', ''rank''],
      rows = [mk_row 42 5 (9/10) 1 0, mk_row 42 7 (8/10) 2 0, mk_row 7 1 1 1 0,
              mk_row 42 9 (7/10) 3 0, mk_row 42 11 (6/10) 4 0, mk_row 42 13 (5/10) 5 0,
              mk_row 42 15 (4/10) 6 0, mk_row 42 17 (3/10) 7 0]\<rparr>"

definition demo_personal_als :: dataframe where
  "demo_personal_als =
     \<lparr>columns = [''track_id'', ''score'', ''rank''], rows = [mk_row 42 100 1 1 0]\<rparr>"

definition demo_top_popular :: dataframe where
  "demo_top_popular =
     \<lparr>columns = [''track_id'', ''rank'', ''listen_count''],
      rows = [mk_row 0 1 0 1 1000, mk_row 1 2 0 2 500]\<rparr>"

definition demo :: recommendations where
  "demo =
     \<lparr>recs = (\<lambda>_. None)(''final_ranked'' := Some demo_final_ranked,
                          ''personal_als'' := Some demo_personal_als,
                          ''top_popular'' := Some demo_top_popular),
      stats = \<lparr>request_personal_count = 0, request_default_count = 0,
               request_with_online_count = 0\<rparr>,
      bucket = (\<lambda>_. None),
      requested = []\<rparr>"

section \<open>The personal ordering as the specification words it\<close>


section \<open>What an admissible sort routine gives\<close>

lemma is_argsort_stable: "is_argsort stable_argsort"
  by (simp add: is_argsort_def stable_argsort_def)

lemma argsort_set: "is_argsort f \<Longrightarrow> set (f keys) = {0..<length keys}"
proof -
  assume "is_argsort f"
  then have "mset (f keys) = mset [0..<length keys]" by (simp add: is_argsort_def)
  then have "set (f keys) = set [0..<length keys]" by (rule mset_eq_setD)
  then show ?thesis by simp
qed

lemma argsort_distinct: "is_argsort f \<Longrightarrow> distinct (f keys)"
proof -
  assume "is_argsort f"
  then have "mset (f keys) = mset [0..<length keys]" by (simp add: is_argsort_def)
  then have "distinct (f keys) = distinct [0..<length keys]" by (rule mset_eq_imp_distinct_iff)
  then show ?thesis by simp
qed

lemma argsort_sorted: "is_argsort f \<Longrightarrow> sorted (map (\<lambda>i. keys ! i) (f keys))"
  by (simp add: is_argsort_def)

text \<open>Distinct keys leave one admissible indexer.\<close>

lemma argsort_unique:
  assumes f: "is_argsort f" and g: "is_argsort g" and d: "distinct keys"
  shows "f keys = g keys"
proof -
  let ?n = "length keys"
  have inj: "inj_on (\<lambda>i. keys ! i) {0..<?n}"
    using d by (auto simp: inj_on_def nth_eq_iff_index_eq)
  have df: "distinct (map (\<lambda>i. keys ! i) (f keys))"
    using inj argsort_distinct[OF f] argsort_set[OF f] by (simp add: distinct_map)
  have dg: "distinct (map (\<lambda>i. keys ! i) (g keys))"
    using inj argsort_distinct[OF g] argsort_set[OF g] by (simp add: distinct_map)
  have "set (map (\<lambda>i. keys ! i) (f keys)) = set (map (\<lambda>i. keys ! i) (g keys))"
    using argsort_set[OF f] argsort_set[OF g] by simp
  then have eq: "map (\<lambda>i. keys ! i) (f keys) = map (\<lambda>i. keys ! i) (g keys)"
    using sorted_distinct_set_unique[OF argsort_sorted[OF f] df argsort_sorted[OF g] dg] by blast
  have "inj_on (\<lambda>i. keys ! i) (set (f keys) \<union> set (g keys))"
    using inj argsort_set[OF f] argsort_set[OF g] by simp
  then show ?thesis using eq by (rule inj_on_map_eq_map[THEN iffD1])
qed

lemma argsort_ascending:
  assumes f: "is_argsort f" and s: "sorted_wrt (<) keys"
  shows "f keys = [0..<length keys]"
proof -
  have d: "distinct keys" and s': "sorted keys"
    using s by (simp_all add: strict_sorted_iff)
  have "sorted (map (\<lambda>i. keys ! i) [0..<length keys])"
    using s' by (simp add: map_nth)
  then have "stable_argsort keys = [0..<length keys]"
    unfolding stable_argsort_def by (rule sort_key_id_if_sorted)
  then show ?thesis using argsort_unique[OF f is_argsort_stable d] by simp
qed




lemma sort_values_ascending:
  assumes "is_argsort f" and "sorted_wrt (<) (map (sort_keys cols asc) rs)"
  shows "sort_values f cols asc rs = rs"
  unfolding sort_values_def using argsort_ascending[OF assms] by (simp add: map_nth)

section \<open>The tables are only read\<close>

lemma recs_bump [simp]:
  "recs (bump_personal s) = recs s"
  "recs (bump_default s) = recs s"
  "recs (bump_with_online s) = recs s"
  by (simp_all add: bump_personal_def bump_default_def bump_with_online_def)

lemma recs_tier_top: "recs (snd (tier_top f self k)) = recs self"
  by (simp add: tier_top_def split: option.splits sum.splits)

lemma recs_tier_als: "recs (snd (tier_als f self u k)) = recs self"
  by (simp add: tier_als_def recs_tier_top split: option.splits sum.splits error.splits)

lemma recs_get_offline: "recs (snd (get_offline f self u k)) = recs self"
  by (simp add: get_offline_def recs_tier_als split: option.splits sum.splits error.splits)

lemma recs_get_with_online: "recs (snd (get_with_online f self u k rt a)) = recs self"
proof -
  obtain r s where g: "get_offline f self u (k * 5) = (r, s)"
    by (cases "get_offline f self u (k * 5)")
  have "recs s = recs self"
    using recs_get_offline[of f self u "k * 5"] g by simp
  then show ?thesis
    by (simp add: get_with_online_def g Let_def split: sum.splits option.splits)
qed

text \<open>
  Claim C8. Whatever the arguments and whatever the sort routine, \<open>get_offline\<close> and
  \<open>get_with_online\<close> leave the three entries of \<open>_recs\<close> (\<open>final_ranked\<close>,
  \<open>personal_als\<close>, \<open>top_popular\<close>) as they were: only \<open>_stats\<close> can differ afterwards.
\<close>

theorem tables_unchanged:
  "recs (snd (get_offline f self u k)) = recs self
   \<and> recs (snd (get_with_online f self u k rt a)) = recs self"
  by (simp add: recs_get_offline recs_get_with_online)

section \<open>Loading an unknown table name\<close>

text \<open>
  Claim C10. For a name that is none of \<open>final_ranked\<close>, \<open>personal_als\<close> and
  \<open>top_popular\<close>, \<open>load\<close> raises \<open>ValueError\<close> and the whole object is as before:
  no request has been sent to the bucket, no table and no counter has changed.
\<close>

theorem load_invalid:
  "rtype \<noteq> ''final_ranked'' \<Longrightarrow> rtype \<noteq> ''personal_als'' \<Longrightarrow> rtype \<noteq> ''top_popular''
   \<Longrightarrow> load self rtype = (Inl ValueError, self)"
  by (simp add: load_def S3_KEYS_def)

theorem load_invalid_witness:
  "''genres'' \<noteq> ''final_ranked'' \<and> ''genres'' \<noteq> ''personal_als''
   \<and> ''genres'' \<noteq> ''top_popular'' \<and> load demo ''genres'' = (Inl ValueError, demo)"
  using load_invalid [of "''genres''" demo] by simp

section \<open>The requested count\<close>

lemma head_zero [simp]: "head 0 xs = []"
  by (simp add: head_def)

lemma head_pos: "0 \<le> k \<Longrightarrow> head k xs = take (nat k) xs"
  by (simp add: head_def)

lemma head_head: "0 \<le> k \<Longrightarrow> head k (head (k * 5) xs) = head k xs"
  by (simp add: head_def min_def)

lemma head_oversampled_empty: "0 \<le> k \<Longrightarrow> head (k * 5) xs = [] \<Longrightarrow> head k xs = []"
  by (auto simp: head_def)

subsection \<open>The result as a function of k\<close>

lemma personal_tracks_head:
  "\<exists>r. (\<forall>e. r = Inl e \<longrightarrow> e = KeyError) \<and> (\<forall>k. personal_tracks f df u k = map_sum id (head k) r)"
proof (cases "loc df u")
  case (Inl e)
  then have "e = KeyError" by (auto simp: loc_def Let_def split: if_splits)
  with Inl have "\<forall>k. personal_tracks f df u k = map_sum id (head k) (Inl KeyError)"
    by (simp add: personal_tracks_def)
  then show ?thesis by blast
next
  case (Inr m)
  show ?thesis
  proof (cases "track_id_column (order_personal f m)")
    case (Inl e)
    then have "e = KeyError" by (auto simp: track_id_column_def split: if_splits)
    with Inl Inr have "\<forall>k. personal_tracks f df u k = map_sum id (head k) (Inl KeyError)"
      by (simp add: personal_tracks_def)
    then show ?thesis by blast
  next
    case (Inr ts)
    with \<open>loc df u = Inr m\<close>
    have "\<forall>k. personal_tracks f df u k = map_sum id (head k) (Inr ts)"
      by (simp add: personal_tracks_def)
    then show ?thesis by blast
  qed
qed

lemma tier_top_head:
  "\<exists>r s. (\<forall>e. r = Inl e \<longrightarrow> e = KeyError) \<and> (\<forall>k. tier_top f self k = (map_sum id (head k) r, s))"
proof (cases "recs self ''top_popular''")
  case None
  then have "\<forall>k. tier_top f self k = (map_sum id (head k) (Inr []), self)"
    by (simp add: tier_top_def head_def)
  then show ?thesis by blast
next
  case (Some tp)
  show ?thesis
  proof (cases "track_id_column (order_top f tp)")
    case (Inl e)
    then have "e = KeyError" by (auto simp: track_id_column_def split: if_splits)
    with Inl Some have "\<forall>k. tier_top f self k = (map_sum id (head k) (Inl KeyError), self)"
      by (simp add: tier_top_def)
    then show ?thesis by blast
  next
    case (Inr ts)
    with Some have "\<forall>k. tier_top f self k = (map_sum id (head k) (Inr ts), bump_default self)"
      by (simp add: tier_top_def)
    then show ?thesis by blast
  qed
qed

lemma tier_als_head:
  "\<exists>r s. (\<forall>e. r = Inl e \<longrightarrow> e = KeyError) \<and> (\<forall>k. tier_als f self u k = (map_sum id (head k) r, s))"
proof (cases "recs self ''personal_als''")
  case None
  then have "\<forall>k. tier_als f self u k = tier_top f self k" by (simp add: tier_als_def)
  then show ?thesis using tier_top_head[of f self] by simp
next
  case (Some pa)
  obtain r where e: "\<forall>e. r = Inl e \<longrightarrow> e = KeyError"
    and r: "\<forall>k. personal_tracks f pa u k = map_sum id (head k) r"
    using personal_tracks_head[of f pa u] by blast
  show ?thesis
  proof (cases r)
    case (Inl x)
    with e r Some have "\<forall>k. tier_als f self u k = tier_top f self k"
      by (simp add: tier_als_def)
    then show ?thesis using tier_top_head[of f self] by simp
  next
    case (Inr ts)
    with r Some have "\<forall>k. tier_als f self u k = (map_sum id (head k) (Inr ts), bump_personal self)"
      by (simp add: tier_als_def)
    then show ?thesis by blast
  qed
qed

lemma get_offline_head:
  "\<exists>r s. (\<forall>e. r = Inl e \<longrightarrow> e = KeyError) \<and> (\<forall>k. get_offline f self u k = (map_sum id (head k) r, s))"
proof (cases "recs self ''final_ranked''")
  case None
  then have "\<forall>k. get_offline f self u k = tier_als f self u k" by (simp add: get_offline_def)
  then show ?thesis using tier_als_head[of f self u] by simp
next
  case (Some fr)
  obtain r where e: "\<forall>e. r = Inl e \<longrightarrow> e = KeyError"
    and r: "\<forall>k. personal_tracks f fr u k = map_sum id (head k) r"
    using personal_tracks_head[of f fr u] by blast
  show ?thesis
  proof (cases r)
    case (Inl x)
    with e r Some have "\<forall>k. get_offline f self u k = tier_als f self u k"
      by (simp add: get_offline_def)
    then show ?thesis using tier_als_head[of f self u] by simp
  next
    case (Inr ts)
    with r Some have "\<forall>k. get_offline f self u k = (map_sum id (head k) (Inr ts), bump_personal self)"
      by (simp add: get_offline_def)
    then show ?thesis by blast
  qed
qed

text \<open>
  Claim C1, as the source has it. \<open>get_offline\<close> has no guard on \<open>k\<close>. With \<open>k = 0\<close>
  it returns the empty list (or raises the \<open>KeyError\<close> of a \<open>top_popular\<close> frame
  without \<open>track_id\<close>), after the same lookups and with the same counter incremented
  as for any other \<open>k\<close>.
\<close>

theorem get_offline_zero:
  "fst (get_offline f self u 0) \<in> {Inr [], Inl KeyError}
   \<and> snd (get_offline f self u 0) = snd (get_offline f self u k)"
proof -
  obtain r s where e: "\<forall>e. r = Inl e \<longrightarrow> e = KeyError"
    and r: "\<forall>k. get_offline f self u k = (map_sum id (head k) r, s)"
    using get_offline_head[of f self u] by blast
  show ?thesis using e r by (cases r) simp_all
qed

text \<open>
  Claim C1 as stated fails: for user 42 of the concrete state, \<open>k = -1\<close> returns six
  tracks, and \<open>k = 0\<close> increments the personal counter from 0 to 1.
\<close>

theorem k_guard_counterexample:
  "fst (get_offline stable_argsort demo 42 (- 1)) = Inr [5, 7, 9, 11, 13, 15]
   \<and> request_personal_count (stats demo) = 0
   \<and> request_personal_count (stats (snd (get_offline stable_argsort demo 42 0))) = 1"
  by code_simp

section \<open>The online-blend counter\<close>

lemma online_bump [simp]:
  "request_with_online_count (stats (bump_personal s)) = request_with_online_count (stats s)"
  "request_with_online_count (stats (bump_default s)) = request_with_online_count (stats s)"
  "request_with_online_count (stats (bump_with_online s)) = request_with_online_count (stats s) + 1"
  by (simp_all add: bump_personal_def bump_default_def bump_with_online_def)

lemma online_tier_top:
  "request_with_online_count (stats (snd (tier_top f self k))) = request_with_online_count (stats self)"
  by (simp add: tier_top_def split: option.splits sum.splits)

lemma online_tier_als:
  "request_with_online_count (stats (snd (tier_als f self u k))) = request_with_online_count (stats self)"
  by (simp add: tier_als_def online_tier_top split: option.splits sum.splits error.splits)

lemma online_get_offline:
  "request_with_online_count (stats (snd (get_offline f self u k))) = request_with_online_count (stats self)"
  by (simp add: get_offline_def online_tier_als split: option.splits sum.splits error.splits)

text \<open>
  Claim C9. \<open>get_with_online\<close> increments \<open>request_with_online_count\<close> by one exactly
  when \<open>recent_tracks\<close> is neither absent nor empty and the oversampled offline call
  (\<open>k * 5\<close>) returned a non-empty list; otherwise the counter keeps its value. When the
  offline list is empty the call returns the empty list.
\<close>

theorem blend_counter:
  "request_with_online_count (stats (snd (get_with_online f self u k rt a))) =
     request_with_online_count (stats self)
       + (if rt \<noteq> None \<and> rt \<noteq> Some []
             \<and> (case fst (get_offline f self u (k * 5)) of Inl e \<Rightarrow> False | Inr offline \<Rightarrow> offline \<noteq> [])
          then 1 else 0)
   \<and> (fst (get_offline f self u (k * 5)) = Inr [] \<longrightarrow> fst (get_with_online f self u k rt a) = Inr [])"
proof -
  obtain r s where g: "get_offline f self u (k * 5) = (r, s)"
    by (cases "get_offline f self u (k * 5)")
  have c: "request_with_online_count (stats s) = request_with_online_count (stats self)"
    using online_get_offline[of f self u "k * 5"] g by simp
  show ?thesis
    by (simp add: get_with_online_def g c Let_def split: sum.splits option.splits)
qed

theorem blend_counter_witness:
  "fst (get_offline stable_argsort demo 42 (0 * 5)) = Inr []
   \<and> fst (get_with_online stable_argsort demo 42 0 (Some [9]) (3/10)) = Inr []
   \<and> request_with_online_count (stats (snd (get_with_online stable_argsort demo 42 0 (Some [9]) (3/10)))) = 0
   \<and> request_with_online_count (stats (snd (get_with_online stable_argsort demo 42 1 (Some [9]) (3/10)))) = 1
   \<and> request_with_online_count (stats (snd (get_with_online stable_argsort demo 42 1 None (3/10)))) = 0"
proof -
  have h: "fst (get_offline stable_argsort demo 42 (0 * 5)) = Inr []" by code_simp
  have z: "request_with_online_count (stats demo) = 0" by code_simp
  have n: "fst (get_offline stable_argsort demo 42 (1 * 5)) = Inr [5, 7, 9, 11, 13]" by code_simp
  show ?thesis
    using h z n
      blend_counter [of stable_argsort demo 42 0 "Some [9]" "3/10"]
      blend_counter [of stable_argsort demo 42 1 "Some [9]" "3/10"]
      blend_counter [of stable_argsort demo 42 1 None "3/10"]
    by simp
qed

section \<open>Properties of the blend\<close>

subsection \<open>The candidate frame\<close>

lemma length_candidates [simp]: "length (candidates offline recent alpha) = length offline"
  by (simp add: candidates_def)

lemma candidates_nth:
  "i < length offline \<Longrightarrow>
   candidates offline recent alpha ! i =
     \<lparr>cand_track_id = offline ! i,
      online_boost = (if offline ! i \<in> set recent then 1 else 0),
      offline_score = 1 / (of_nat i + 1),
      final_score = (1 - alpha) * (1 / (of_nat i + 1))
                     + alpha * (if offline ! i \<in> set recent then 1 else 0)\<rparr>"
  by (simp add: candidates_def Let_def nth_enumerate_eq)

lemma candidates_track_ids [simp]: "map cand_track_id (candidates offline recent alpha) = offline"
  by (rule nth_equalityI) (simp_all add: candidates_nth)


lemma reciprocal_decreasing:
  fixes i j :: nat
  assumes "i < j"
  shows "(1::rat) / (of_nat j + 1) < 1 / (of_nat i + 1)"
proof -
  have "(of_nat i :: rat) + 1 < of_nat j + 1" using assms by simp
  moreover have "(0::rat) < of_nat i + 1" by (simp add: add_nonneg_pos)
  ultimately show ?thesis by (simp add: frac_less2)
qed

lemma uniform_boost_ascending:
  assumes a: "alpha < 1" and u: "alpha = 0 \<or> set offline \<subseteq> set recent"
  shows "sorted_wrt (<) (map (sort_keys [final_score] [False]) (candidates offline recent alpha))"
proof -
  let ?cs = "candidates offline recent alpha"
  have "sort_keys [final_score] [False] (?cs ! i) < sort_keys [final_score] [False] (?cs ! j)"
    if "i < j" "j < length offline" for i j
  proof -
    have p: "0 < 1 - alpha" using a by simp
    have lt: "(1 - alpha) * (1 / (of_nat j + 1)) < (1 - alpha) * (1 / (of_nat i + 1))"
      by (rule mult_strict_left_mono[OF reciprocal_decreasing[OF that(1)] p])
    have "final_score (?cs ! j) < final_score (?cs ! i)"
    proof (cases "alpha = 0")
      case True
      then show ?thesis using that lt by (simp add: candidates_nth)
    next
      case False
      then have "set offline \<subseteq> set recent" using u by simp
      then have "offline ! i \<in> set recent" and "offline ! j \<in> set recent"
        using that by (auto simp: subset_iff)
      then show ?thesis using that lt by (simp add: candidates_nth)
    qed
    then show ?thesis by (simp add: sort_keys_def)
  qed
  then show ?thesis by (simp add: sorted_wrt_iff_nth_less)
qed

lemma get_with_online_blend:
  assumes g: "get_offline f self u (k * 5) = (Inr offline, self1)"
    and ne: "offline \<noteq> []" and r: "recent \<noteq> []"
  shows "get_with_online f self u k (Some recent) alpha =
           (Inr (head k (map cand_track_id
                    (sort_values f [final_score] [False] (candidates offline recent alpha)))),
            bump_with_online self1)"
  using ne r by (simp add: get_with_online_def g Let_def)


subsection \<open>The blend weight\<close>




subsection \<open>No online weight\<close>

text \<open>
  Claim C5, as the source has it. For every \<open>k \<ge> 0\<close>, every user and every non-empty
  \<open>recent_tracks\<close>, blending with \<open>alpha = 0\<close> returns what \<open>get_offline\<close> returns
  for the same \<open>k\<close>: the same track ids in the same order, or the same error.
\<close>

theorem blend_alpha_zero:
  assumes f: "is_argsort f" and k: "0 \<le> k" and r: "recent \<noteq> []"
  shows "fst (get_with_online f self u k (Some recent) 0) = fst (get_offline f self u k)"
proof -
  obtain res s where h: "\<forall>k. get_offline f self u k = (map_sum id (head k) res, s)"
    using get_offline_head[of f self u] by blast
  show ?thesis
  proof (cases res)
    case (Inl e)
    then show ?thesis using h by (simp add: get_with_online_def)
  next
    case (Inr ts)
    let ?offline = "head (k * 5) ts"
    have g: "get_offline f self u (k * 5) = (Inr ?offline, s)" using h Inr by simp
    have o: "fst (get_offline f self u k) = Inr (head k ts)" using h Inr by simp
    show ?thesis
    proof (cases "?offline = []")
      case True
      then have "head k ts = []" using k by (simp add: head_oversampled_empty)
      then show ?thesis using True o g by (simp add: get_with_online_def)
    next
      case False
      have "sort_values f [final_score] [False] (candidates ?offline recent 0)
              = candidates ?offline recent 0"
        using f by (rule sort_values_ascending) (simp add: uniform_boost_ascending)
      then have "fst (get_with_online f self u k (Some recent) 0) = Inr (head k ?offline)"
        using get_with_online_blend[OF g False r, of 0] by simp
      then show ?thesis using o k by (simp add: head_head)
    qed
  qed
qed

theorem blend_alpha_zero_witness:
  "fst (get_with_online stable_argsort demo 42 2 (Some [13]) 0) = Inr [5, 7]
   \<and> fst (get_offline stable_argsort demo 42 2) = Inr [5, 7]"
proof -
  have o: "fst (get_offline stable_argsort demo 42 2) = Inr [5, 7]" by code_simp
  show ?thesis
    using o blend_alpha_zero [OF is_argsort_stable, of 2 "[13]" demo 42] by simp
qed

text \<open>
  Claim C5 as stated (every \<open>k\<close>) fails for a negative \<open>k\<close>: with \<open>k = -1\<close> the
  oversampled call \<open>head(-5)\<close> keeps two of the seven rows of user 42 and the blend
  returns \<open>[5]\<close>, while \<open>get_offline\<close> with \<open>k = -1\<close> returns six tracks.
\<close>

theorem blend_alpha_zero_counterexample:
  "fst (get_with_online stable_argsort demo 42 (- 1) (Some [13]) 0) = Inr [5]
   \<and> fst (get_offline stable_argsort demo 42 (- 1)) = Inr [5, 7, 9, 11, 13, 15]"
  by code_simp

subsection \<open>A uniform boost\<close>




subsection \<open>Scenario C of the specification\<close>



section \<open>The first tier\<close>

lemma order_personal_columns [simp]: "columns (order_personal f df) = columns df"
  by (simp add: order_personal_def)






end
